theory Spec2Isabelle
  imports Complex_Main
begin

section \<open>Feature inversion (librosa/feature/inverse.py)\<close>

text \<open>
  The module holds four functions, \<open>mel_to_stft\<close>, \<open>mel_to_audio\<close>, \<open>mfcc_to_mel\<close> and
  \<open>mfcc_to_audio\<close>. Each of them binds its keyword arguments, fills in defaults, and
  calls collaborators that live elsewhere: \<open>filters.mel\<close>, \<open>util.nnls\<close>,
  \<open>core.griffinlim\<close>, \<open>core.db_to_power\<close>, \<open>scipy.fftpack.idct\<close> and \<open>np.power\<close>.

  Arrays are objects in a store, because \<open>mel_to_stft\<close> writes into one of them
  (\<open>np.power(inverse, 1./power, out=inverse)\<close>). A call is a function from the store to
  an outcome (an exception or a value) and the store afterwards.
\<close>

subsection \<open>Arrays, the store, Python values\<close>

datatype dtype = Float32 | Float64

text \<open>
  An array entry is a real number or one of the three special values of
  floating-point arithmetic. Of the floating-point format only the range is modelled:
  a result whose magnitude is at most half the smallest positive number of the format
  is zero, a result whose magnitude reaches the overflow threshold is infinite.
  Rounding inside the range and the sign of zero are not modelled.
\<close>

datatype scalar = Fin real | PInf | NInf | NaN

text \<open>
  \<open>tiny d\<close> is half the smallest positive subnormal number of the format \<open>d\<close>
  (\<open>2^-150\<close> for single, \<open>2^-1075\<close> for double precision); \<open>huge d\<close> is the overflow
  threshold, half a unit in the last place above the largest finite number
  (\<open>2^128 - 2^103\<close> and \<open>2^1024 - 2^970\<close>).
\<close>

fun tiny :: "dtype \<Rightarrow> real" where
  "tiny Float32 = 1 / 2 ^ 150"
| "tiny Float64 = 1 / 2 ^ 1075"

fun huge :: "dtype \<Rightarrow> real" where
  "huge Float32 = 2 ^ 128 - 2 ^ 103"
| "huge Float64 = 2 ^ 1024 - 2 ^ 970"

definition to_float :: "dtype \<Rightarrow> real \<Rightarrow> scalar" where
  "to_float d y =
     (if \<bar>y\<bar> \<le> tiny d then Fin 0
      else if huge d \<le> y then PInf
      else if y \<le> - huge d then NInf
      else Fin y)"

text \<open>\<open>shape\<close> is numpy's shape tuple, \<open>entries\<close> the elements in row-major order.\<close>

record ndarray =
  dtype :: dtype
  shape :: "nat list"
  entries :: "scalar list"

type_synonym addr = nat

text \<open>The store: the array at address \<open>a\<close> is \<open>h ! a\<close>; a new array is appended.\<close>

type_synonym heap = "ndarray list"

text \<open>
  Exceptions. \<open>ParameterError\<close> is librosa's own exception class (the invalid-parameter
  error). \<open>TypeError\<close>, \<open>ZeroDivisionError\<close>, \<open>OverflowError\<close> and \<open>IndexError\<close> are raised
  by Python itself.
  \<open>CollaboratorError\<close> stands for any other exception a collaborator raises.
  \<open>DanglingReference\<close> has no Python counterpart: it marks an address outside the store.
\<close>

datatype error =
    ParameterError
  | TypeError
  | ZeroDivisionError
  | OverflowError
  | IndexError
  | CollaboratorError string
  | DanglingReference

text \<open>
  The values that travel as parameters: \<open>None\<close>, booleans, integers, floats, strings,
  numeric types, and callables that map an array to a number (the reference power
  of \<open>mfcc_to_mel\<close> may be one). Numbers are Python's own \<open>int\<close> and \<open>float\<close>; numpy
  scalars are not among them.
\<close>

datatype pyval =
    PNone
  | PBool bool
  | PInt int
  | PFloat real
  | PStr string
  | PDType dtype
  | PCallable "ndarray \<Rightarrow> real"

text \<open>Keyword arguments, in the order in which the call lists them.\<close>

type_synonym kwargs = "(string \<times> pyval) list"

text \<open>The value bound to parameter \<open>k\<close>: the caller's, or the default \<open>d\<close> of the signature.\<close>

definition kwarg :: "kwargs \<Rightarrow> string \<Rightarrow> pyval \<Rightarrow> pyval" where
  "kwarg kw k d = (case map_of kw k of None \<Rightarrow> d | Some v \<Rightarrow> v)"

text \<open>What is left for \<open>**kwargs\<close> once the named parameters \<open>ks\<close> are bound.\<close>

definition without :: "string list \<Rightarrow> kwargs \<Rightarrow> kwargs" where
  "without ks kw = filter (\<lambda>p. fst p \<notin> set ks) kw"

definition only :: "string list \<Rightarrow> kwargs \<Rightarrow> kwargs" where
  "only ks kw = filter (\<lambda>p. fst p \<in> set ks) kw"

definition has_key :: "kwargs \<Rightarrow> string \<Rightarrow> bool" where
  "has_key kw k = (map_of kw k \<noteq> None)"

subsection \<open>Calls that may raise and may change the store\<close>

type_synonym 'a action = "heap \<Rightarrow> (error + 'a) \<times> heap"

definition raise :: "error \<Rightarrow> 'a action" where
  "raise e h = (Inl e, h)"

definition and_then :: "'a action \<Rightarrow> ('a \<Rightarrow> 'b action) \<Rightarrow> 'b action" where
  "and_then m f h = (case m h of (Inl e, h') \<Rightarrow> (Inl e, h') | (Inr x, h') \<Rightarrow> f x h')"

definition alloc :: "ndarray \<Rightarrow> addr action" where
  "alloc a h = (Inr (length h), h @ [a])"

subsection \<open>Python and numpy primitives used by the module\<close>

text \<open>
  \<open>1./power\<close>, for a Python number \<open>power\<close>. The divisor is converted to a float first:
  an \<open>int\<close> too large for a float raises \<open>OverflowError\<close>, \<open>True\<close> and \<open>False\<close> are 1
  and 0, and what is no number raises \<open>TypeError\<close>. Then float division raises
  \<open>ZeroDivisionError\<close> when the divisor is zero.
\<close>

fun py_float :: "pyval \<Rightarrow> error + real" where
  "py_float (PFloat p) = Inr p"
| "py_float (PInt i) =
     (if huge Float64 \<le> \<bar>of_int i\<bar> then Inl OverflowError else Inr (of_int i))"
| "py_float (PBool b) = Inr (if b then 1 else 0)"
| "py_float _ = Inl TypeError"

definition py_truediv :: "real \<Rightarrow> pyval \<Rightarrow> error + real" where
  "py_truediv x v =
     (case py_float v of
        Inl e \<Rightarrow> Inl e
      | Inr p \<Rightarrow> if p = 0 then Inl ZeroDivisionError else Inr (x / p))"

definition is_integer :: "real \<Rightarrow> bool" where
  "is_integer e = (of_int \<lfloor>e\<rfloor> = e)"

text \<open>
  One element of \<open>np.power(x, e)\<close> in the format \<open>d\<close>, for a finite exponent \<open>e\<close>,
  after the C library's \<open>pow\<close>: a negative base with a fractional exponent gives
  \<open>nan\<close>, a zero base with a negative exponent gives \<open>inf\<close>.
\<close>

fun np_power_elem :: "dtype \<Rightarrow> scalar \<Rightarrow> real \<Rightarrow> scalar" where
  "np_power_elem d (Fin x) e =
     (if e = 0 then Fin 1
      else if 0 < x then to_float d (x powr e)
      else if x = 0 then (if 0 < e then Fin 0 else PInf)
      else if is_integer e
        then to_float d ((if even \<lfloor>e\<rfloor> then 1 else - 1) * ((- x) powr e))
      else NaN)"
| "np_power_elem d PInf e = (if e = 0 then Fin 1 else if 0 < e then PInf else Fin 0)"
| "np_power_elem d NInf e =
     (if e = 0 then Fin 1
      else if e < 0 then Fin 0
      else if is_integer e \<and> odd \<lfloor>e\<rfloor> then NInf else PInf)"
| "np_power_elem d NaN e = (if e = 0 then Fin 1 else NaN)"

text \<open>
  \<open>np.power(a, e, out=a)\<close>: the array at \<open>a\<close> is overwritten, element by element, in
  its own format; the call returns the same object.
\<close>

definition np_power_out :: "addr \<Rightarrow> real \<Rightarrow> addr action" where
  "np_power_out a e h =
     (if a < length h
      then (Inr a,
            h[a := (h ! a)\<lparr>entries :=
                   map (\<lambda>x. np_power_elem (dtype (h ! a)) x e) (entries (h ! a))\<rparr>])
      else (Inl DanglingReference, h))"

subsection \<open>Collaborators\<close>

text \<open>
  The collaborators are parameters of the model: \<open>filters.mel(sr, n_fft, **kw)\<close>,
  \<open>nnls(A, B)\<close>, \<open>griffinlim(S, **kw)\<close> and \<open>scipy.fftpack.idct(x, **kw)\<close>. Each may
  raise, and each gets the store.
\<close>

record collaborators =
  filters_mel :: "pyval \<Rightarrow> pyval \<Rightarrow> kwargs \<Rightarrow> addr action"
  nnls :: "addr \<Rightarrow> addr \<Rightarrow> addr action"
  griffinlim :: "addr \<Rightarrow> kwargs \<Rightarrow> addr action"
  idct :: "addr \<Rightarrow> kwargs \<Rightarrow> addr action"

text \<open>
  Modelled from the spec: \<open>core.spectrum.db_to_power\<close> is not among the sources. The
  specification gives it as the element-wise map \<open>reference * 10^(log_power/10)\<close>, where
  the reference is a scalar or a function of the input matrix; the result is a new
  array. The formula is evaluated in the format of the input array: the power
  \<open>10^(log_power/10)\<close> first, then its product with the reference, each brought into
  the range of the format; on the special values the same formula is read in
  floating-point arithmetic.
\<close>

fun ref_value :: "pyval \<Rightarrow> ndarray \<Rightarrow> error + real" where
  "ref_value (PFloat r) a = Inr r"
| "ref_value (PInt i) a = Inr (of_int i)"
| "ref_value (PCallable f) a = Inr (f a)"
| "ref_value _ a = Inl TypeError"

fun times_ref :: "dtype \<Rightarrow> real \<Rightarrow> scalar \<Rightarrow> scalar" where
  "times_ref d r (Fin y) = to_float d (r * y)"
| "times_ref d r PInf = (if 0 < r then PInf else if r < 0 then NInf else NaN)"
| "times_ref d r NInf = (if 0 < r then NInf else if r < 0 then PInf else NaN)"
| "times_ref d r NaN = NaN"

fun db_elem :: "dtype \<Rightarrow> real \<Rightarrow> scalar \<Rightarrow> scalar" where
  "db_elem d r (Fin x) = times_ref d r (to_float d (10 powr (x / 10)))"
| "db_elem d r PInf = times_ref d r PInf"
| "db_elem d r NInf = times_ref d r (Fin 0)"
| "db_elem d r NaN = NaN"

definition db_to_power :: "addr \<Rightarrow> pyval \<Rightarrow> addr action" where
  "db_to_power S_db ref h =
     (if S_db < length h
      then (case ref_value ref (h ! S_db) of
              Inl e \<Rightarrow> (Inl e, h)
            | Inr r \<Rightarrow>
                alloc ((h ! S_db)\<lparr>entries :=
                         map (db_elem (dtype (h ! S_db)) r) (entries (h ! S_db))\<rparr>) h)
      else (Inl DanglingReference, h))"

subsection \<open>The four functions of the module\<close>

text \<open>\<open>M.shape[0]\<close>: indexing an empty shape tuple raises \<open>IndexError\<close>.\<close>

definition shape0 :: "ndarray \<Rightarrow> error + int" where
  "shape0 a = (case shape a of [] \<Rightarrow> Inl IndexError | n # _ \<Rightarrow> Inr (int n))"

text \<open>
  \<^verbatim>\<open>def mel_to_stft(M, sr=22050, n_fft=2048, power=2.0, **kwargs):
    mel_basis = filters.mel(sr, n_fft, n_mels=M.shape[0], dtype=M.dtype, **kwargs)
    inverse = nnls(mel_basis, M)
    return np.power(inverse, 1./power, out=inverse)\<close>

  \<open>M\<close> is the address of the array passed first; \<open>kw\<close> holds the keyword arguments
  of the call. A keyword \<open>M\<close> beside the positional one, and a keyword \<open>n_mels\<close> or
  \<open>dtype\<close> (which would reach \<open>filters.mel\<close> twice), raise \<open>TypeError\<close>.
\<close>

definition mel_to_stft :: "collaborators \<Rightarrow> addr \<Rightarrow> kwargs \<Rightarrow> addr action" where
  "mel_to_stft C M kw h =
     (let sr = kwarg kw ''sr'' (PInt 22050);
          n_fft = kwarg kw ''n_fft'' (PInt 2048);
          power = kwarg kw ''power'' (PFloat 2);
          kwargs = without [''sr'', ''n_fft'', ''power''] kw
      in if has_key kw ''M'' then (Inl TypeError, h)
         else if \<not> M < length h then (Inl DanglingReference, h)
         else case shape0 (h ! M) of
           Inl e \<Rightarrow> (Inl e, h)
         | Inr n_mels \<Rightarrow>
             if has_key kwargs ''n_mels'' \<or> has_key kwargs ''dtype'' then (Inl TypeError, h)
             else and_then
               (filters_mel C sr n_fft
                  ((''n_mels'', PInt n_mels) # (''dtype'', PDType (dtype (h ! M))) # kwargs))
               (\<lambda>mel_basis. and_then (nnls C mel_basis M)
                 (\<lambda>inverse. case py_truediv 1 power of
                     Inl e \<Rightarrow> raise e
                   | Inr p \<Rightarrow> np_power_out inverse p)) h)"

text \<open>
  The keyword arguments that \<open>mel_to_audio\<close> hands to \<open>griffinlim\<close>:
  \<^verbatim>\<open>griffinlim(stft, n_iter=n_iter, hop_length=hop_length, win_length=win_length,
           window=window, center=center, dtype=dtype, length=length,
           pad_mode=pad_mode)\<close>
  with the defaults of the signature
  \<^verbatim>\<open>def mel_to_audio(M, sr=22050, n_fft=2048, hop_length=512, win_length=None,
                 window='hann', center=True, pad_mode='reflect', power=2.0, n_iter=32,
                 length=None, dtype=np.float32, **kwargs)\<close>
\<close>

definition griffinlim_kwargs :: "kwargs \<Rightarrow> kwargs" where
  "griffinlim_kwargs kw =
     [(''n_iter'', kwarg kw ''n_iter'' (PInt 32)),
      (''hop_length'', kwarg kw ''hop_length'' (PInt 512)),
      (''win_length'', kwarg kw ''win_length'' PNone),
      (''window'', kwarg kw ''window'' (PStr ''hann'')),
      (''center'', kwarg kw ''center'' (PBool True)),
      (''dtype'', kwarg kw ''dtype'' (PDType Float32)),
      (''length'', kwarg kw ''length'' PNone),
      (''pad_mode'', kwarg kw ''pad_mode'' (PStr ''reflect''))]"

text \<open>
  \<^verbatim>\<open>    stft = mel_to_stft(M, sr=sr, n_fft=n_fft, power=power, **kwargs)
    return griffinlim(stft, ...)\<close>
\<close>

definition mel_to_audio :: "collaborators \<Rightarrow> addr \<Rightarrow> kwargs \<Rightarrow> addr action" where
  "mel_to_audio C M kw h =
     (let sr = kwarg kw ''sr'' (PInt 22050);
          n_fft = kwarg kw ''n_fft'' (PInt 2048);
          power = kwarg kw ''power'' (PFloat 2);
          kwargs = without [''sr'', ''n_fft'', ''hop_length'', ''win_length'', ''window'',
                            ''center'', ''pad_mode'', ''power'', ''n_iter'', ''length'',
                            ''dtype''] kw
      in if has_key kw ''M'' then (Inl TypeError, h)
         else and_then
           (mel_to_stft C M ((''sr'', sr) # (''n_fft'', n_fft) # (''power'', power) # kwargs))
           (\<lambda>stft. griffinlim C stft (griffinlim_kwargs kw)) h)"

text \<open>
  \<^verbatim>\<open>def mfcc_to_mel(mfcc, n_mels=128, dct_type=2, norm='ortho', ref=1.0):
    logmel = scipy.fftpack.idct(mfcc, axis=0, type=dct_type, norm=norm, n=n_mels)
    return db_to_power(logmel, ref=ref)\<close>

  The signature has no \<open>**kwargs\<close>: any other keyword raises \<open>TypeError\<close>.
\<close>

definition mfcc_to_mel_params :: "string list" where
  "mfcc_to_mel_params = [''n_mels'', ''dct_type'', ''norm'', ''ref'']"

definition idct_kwargs :: "kwargs \<Rightarrow> kwargs" where
  "idct_kwargs kw =
     [(''axis'', PInt 0),
      (''type'', kwarg kw ''dct_type'' (PInt 2)),
      (''norm'', kwarg kw ''norm'' (PStr ''ortho'')),
      (''n'', kwarg kw ''n_mels'' (PInt 128))]"

definition mfcc_to_mel :: "collaborators \<Rightarrow> addr \<Rightarrow> kwargs \<Rightarrow> addr action" where
  "mfcc_to_mel C mfcc kw h =
     (if \<not> set (map fst kw) \<subseteq> set mfcc_to_mel_params then (Inl TypeError, h)
      else and_then (idct C mfcc (idct_kwargs kw))
             (\<lambda>logmel. db_to_power logmel (kwarg kw ''ref'' (PFloat 1))) h)"

text \<open>
  \<^verbatim>\<open>def mfcc_to_audio(mfcc, n_mels=128, dct_type=2, norm='ortho', ref=1.0, **kwargs):
    mel_spec = mfcc_to_mel(mfcc, n_mels=n_mels, dct_type=dct_type, norm=norm, ref=ref)
    return mel_to_audio(mel_spec, **kwargs)\<close>
\<close>

definition mfcc_to_audio :: "collaborators \<Rightarrow> addr \<Rightarrow> kwargs \<Rightarrow> addr action" where
  "mfcc_to_audio C mfcc kw h =
     (let n_mels = kwarg kw ''n_mels'' (PInt 128);
          dct_type = kwarg kw ''dct_type'' (PInt 2);
          norm = kwarg kw ''norm'' (PStr ''ortho'');
          ref = kwarg kw ''ref'' (PFloat 1);
          kwargs = without mfcc_to_mel_params kw
      in if has_key kw ''mfcc'' then (Inl TypeError, h)
         else and_then
           (mfcc_to_mel C mfcc
              [(''n_mels'', n_mels), (''dct_type'', dct_type), (''norm'', norm), (''ref'', ref)])
           (\<lambda>mel_spec. mel_to_audio C mel_spec kwargs) h)"

subsection \<open>What the collaborators promise\<close>

text \<open>
  The module's results depend on the collaborators. Their contracts, as far as the
  properties below need them, are predicates on a \<open>collaborators\<close> record.

  \<open>grows h h'\<close>: every array of \<open>h\<close> is still there, unchanged, in \<open>h'\<close>.
  \<open>allocates_only h out\<close>: the call left the arrays of \<open>h\<close> unchanged, and the array it
  returns, if any, is a new one.
\<close>

definition grows :: "heap \<Rightarrow> heap \<Rightarrow> bool" where
  "grows h h' = (take (length h) h' = h)"

definition allocates_only :: "heap \<Rightarrow> (error + addr) \<times> heap \<Rightarrow> bool" where
  "allocates_only h out =
     (grows h (snd out) \<and>
      (case fst out of Inl e \<Rightarrow> True | Inr a \<Rightarrow> length h \<le> a \<and> a < length (snd out)))"

definition collaborators_allocate_only :: "collaborators \<Rightarrow> bool" where
  "collaborators_allocate_only C =
     ((\<forall>sr n_fft kws h. allocates_only h (filters_mel C sr n_fft kws h)) \<and>
      (\<forall>A B h. allocates_only h (nnls C A B h)) \<and>
      (\<forall>S kws h. allocates_only h (griffinlim C S kws h)) \<and>
      (\<forall>x kws h. allocates_only h (idct C x kws h)))"

text \<open>
  The mel basis constructor returns a matrix with \<open>n_mels\<close> rows and \<open>n_fft // 2 + 1\<close>
  columns.
\<close>

definition mel_basis_shape :: "collaborators \<Rightarrow> bool" where
  "mel_basis_shape C =
     (\<forall>sr F kws h b h' n.
        filters_mel C sr (PInt (int F)) kws h = (Inr b, h') \<and>
        map_of kws ''n_mels'' = Some (PInt (int n))
        \<longrightarrow> b < length h' \<and> shape (h' ! b) = [n, F div 2 + 1])"

text \<open>The mel basis constructor returns a matrix of the numeric type it is asked for.\<close>

definition mel_basis_dtype :: "collaborators \<Rightarrow> bool" where
  "mel_basis_dtype C =
     (\<forall>sr n_fft kws h b h' d.
        filters_mel C sr n_fft kws h = (Inr b, h') \<and>
        map_of kws ''dtype'' = Some (PDType d)
        \<longrightarrow> b < length h' \<and> dtype (h' ! b) = d)"

text \<open>
  The solver, given a design matrix and a target matrix with the same row count,
  returns a matrix of shape (design columns, target columns).
\<close>

definition nnls_shape :: "collaborators \<Rightarrow> bool" where
  "nnls_shape C =
     (\<forall>A B h x h' m f t.
        nnls C A B h = (Inr x, h') \<and> A < length h \<and> B < length h \<and>
        shape (h ! A) = [m, f] \<and> shape (h ! B) = [m, t]
        \<longrightarrow> x < length h' \<and> shape (h' ! x) = [f, t])"

text \<open>The solver never returns a negative entry.\<close>

fun nonneg :: "scalar \<Rightarrow> bool" where
  "nonneg (Fin x) = (0 \<le> x)"
| "nonneg PInf = True"
| "nonneg NInf = False"
| "nonneg NaN = False"

definition nnls_nonneg :: "collaborators \<Rightarrow> bool" where
  "nnls_nonneg C =
     (\<forall>A B h x h'. nnls C A B h = (Inr x, h')
        \<longrightarrow> x < length h' \<and> list_all nonneg (entries (h' ! x)))"



text \<open>
  The inverse DCT along axis 0 with \<open>n\<close> output coefficients maps a matrix of \<open>t\<close>
  frames to a matrix of shape \<open>(n, t)\<close>, and finite entries to finite entries.
\<close>

definition idct_shape :: "collaborators \<Rightarrow> bool" where
  "idct_shape C =
     (\<forall>x kws h l h' c t n.
        idct C x kws h = (Inr l, h') \<and> x < length h \<and> shape (h ! x) = [c, t] \<and>
        map_of kws ''axis'' = Some (PInt 0) \<and> map_of kws ''n'' = Some (PInt (int n))
        \<longrightarrow> l < length h' \<and> shape (h' ! l) = [n, t])"


subsection \<open>The operations as the specification words them\<close>

text \<open>
  Mel-to-magnitude inversion, step by step: (a) construct the mel basis from the sample
  rate, the FFT size, the band count of \<open>M\<close>, the numeric type of \<open>M\<close> and the filter
  bank options; (b) solve the non-negative least-squares problem with the external
  solver; (c) raise the solution to the exponent \<open>1/p\<close>, for the power \<open>p\<close>, element by
  element, in place.

  Step (c) is stated with the power function of the reals: an entry \<open>x\<close> of the
  non-negative solution becomes \<open>x\<close> to the \<open>1/p\<close>, brought into the range of the
  array's format; an infinite entry stays infinite.
\<close>

fun root_elem :: "dtype \<Rightarrow> real \<Rightarrow> scalar \<Rightarrow> scalar" where
  "root_elem d p (Fin x) = to_float d (x powr (1 / p))"
| "root_elem d p v = v"

definition mel_basis_constructor ::
  "collaborators \<Rightarrow> pyval \<Rightarrow> pyval \<Rightarrow> nat \<Rightarrow> dtype \<Rightarrow> kwargs \<Rightarrow> addr action" where
  "mel_basis_constructor C sample_rate fft_size mel_band_count numeric_type options =
     filters_mel C sample_rate fft_size
       ((''n_mels'', PInt (int mel_band_count)) # (''dtype'', PDType numeric_type) # options)"

definition inverse_exponent :: "real \<Rightarrow> addr \<Rightarrow> addr action" where
  "inverse_exponent p X h =
     (if X < length h
      then (Inr X,
            h[X := (h ! X)\<lparr>entries := map (root_elem (dtype (h ! X)) p) (entries (h ! X))\<rparr>])
      else (Inl DanglingReference, h))"

definition mel_to_stft_spec ::
  "collaborators \<Rightarrow> addr \<Rightarrow> pyval \<Rightarrow> pyval \<Rightarrow> real \<Rightarrow> kwargs \<Rightarrow> addr action" where
  "mel_to_stft_spec C M sample_rate fft_size p options h =
     and_then
       (mel_basis_constructor C sample_rate fft_size (hd (shape (h ! M))) (dtype (h ! M)) options)
       (\<lambda>mel_basis. and_then (nnls C mel_basis M) (inverse_exponent p)) h"

text \<open>
  Cepstral inversion in two steps: (a) the inverse DCT of the selected type along the
  coefficient axis with \<open>n_mels\<close> output coefficients; (b) \<open>ref * 10^(logmel/10)\<close> for
  every element, where \<open>ref\<close> is a fixed scalar or the value of the supplied callable
  on the log-power array.
\<close>

definition inverse_dct ::
  "collaborators \<Rightarrow> addr \<Rightarrow> pyval \<Rightarrow> pyval \<Rightarrow> pyval \<Rightarrow> addr action" where
  "inverse_dct C coefficients dct_type normalization n_out =
     idct C coefficients
       [(''axis'', PInt 0), (''type'', dct_type), (''norm'', normalization), (''n'', n_out)]"

fun reference_power :: "pyval \<Rightarrow> ndarray \<Rightarrow> real option" where
  "reference_power (PFloat r) logmel = Some r"
| "reference_power (PInt i) logmel = Some (of_int i)"
| "reference_power (PCallable f) logmel = Some (f logmel)"
| "reference_power _ logmel = None"

definition mfcc_to_mel_spec ::
  "collaborators \<Rightarrow> addr \<Rightarrow> pyval \<Rightarrow> pyval \<Rightarrow> pyval \<Rightarrow> pyval \<Rightarrow> addr action" where
  "mfcc_to_mel_spec C mfcc n_mels dct_type normalization ref h =
     (case inverse_dct C mfcc dct_type normalization n_mels h of
        (Inl e, h1) \<Rightarrow> (Inl e, h1)
      | (Inr logmel, h1) \<Rightarrow>
          (if logmel < length h1
           then (case reference_power ref (h1 ! logmel) of
                   None \<Rightarrow> (Inl TypeError, h1)
                 | Some r \<Rightarrow>
                     (Inr (length h1),
                      h1 @ [\<lparr>dtype = dtype (h1 ! logmel), shape = shape (h1 ! logmel),
                             entries = map (\<lambda>v. db_elem (dtype (h1 ! logmel)) r v)
                                           (entries (h1 ! logmel))\<rparr>]))
           else (Inl DanglingReference, h1)))"

subsection \<open>Concrete collaborators\<close>

text \<open>
  Simple collaborators that keep the contracts above, to run the module on concrete
  inputs. \<open>zero_mel\<close> is the all-zero filter bank of the promised shape. For it every
  non-negative matrix is a least-squares solution, and \<open>flat_nnls\<close> returns the one
  whose entries are all 4. \<open>zero_idct\<close> returns the zero matrix of shape
  \<open>(n, frames)\<close>, which is the inverse DCT of a zero matrix; it accepts every DCT type
  and normalisation. \<open>strict_idct\<close> is the same but rejects normalisation with DCT
  type 1. \<open>silent_griffinlim\<close> returns an empty signal. \<open>unit_idct\<close> is the inverse DCT
  for one coefficient and one output coefficient per frame, where the orthonormal
  transform is the identity: it returns a copy of its input.
\<close>

definition full :: "dtype \<Rightarrow> nat list \<Rightarrow> real \<Rightarrow> ndarray" where
  "full d s c = \<lparr>dtype = d, shape = s, entries = replicate (prod_list s) (Fin c)\<rparr>"

definition zero_mel :: "pyval \<Rightarrow> pyval \<Rightarrow> kwargs \<Rightarrow> addr action" where
  "zero_mel sr n_fft kws =
     (case (n_fft, map_of kws ''n_mels'', map_of kws ''dtype'') of
        (PInt F, Some (PInt n), Some (PDType d)) \<Rightarrow> alloc (full d [nat n, nat (F div 2 + 1)] 0)
      | _ \<Rightarrow> raise TypeError)"

definition flat_nnls :: "addr \<Rightarrow> addr \<Rightarrow> addr action" where
  "flat_nnls A B h =
     (if A < length h \<and> B < length h
      then (case (shape (h ! A), shape (h ! B)) of
              ([m, f], [m', t]) \<Rightarrow>
                if m = m' then alloc (full (dtype (h ! B)) [f, t] 4) h
                else (Inl ParameterError, h)
            | _ \<Rightarrow> (Inl ParameterError, h))
      else (Inl DanglingReference, h))"

definition silent_griffinlim :: "addr \<Rightarrow> kwargs \<Rightarrow> addr action" where
  "silent_griffinlim S kws = alloc (full Float32 [0] 0)"

definition zero_idct :: "addr \<Rightarrow> kwargs \<Rightarrow> addr action" where
  "zero_idct x kws h =
     (if x < length h
      then (case (shape (h ! x), map_of kws ''n'') of
              ([c, t], Some (PInt n)) \<Rightarrow> alloc (full (dtype (h ! x)) [nat n, t] 0) h
            | _ \<Rightarrow> (Inl ParameterError, h))
      else (Inl DanglingReference, h))"

definition strict_idct :: "addr \<Rightarrow> kwargs \<Rightarrow> addr action" where
  "strict_idct x kws h =
     (if map_of kws ''type'' = Some (PInt 1) \<and> map_of kws ''norm'' = Some (PStr ''ortho'')
      then (Inl ParameterError, h)
      else zero_idct x kws h)"


definition example_collaborators :: collaborators where
  "example_collaborators =
     \<lparr>filters_mel = zero_mel, nnls = flat_nnls, griffinlim = silent_griffinlim,
      idct = zero_idct\<rparr>"

definition strict_collaborators :: collaborators where
  "strict_collaborators = example_collaborators\<lparr>idct := strict_idct\<rparr>"


text \<open>A mel power spectrogram with one band and two frames, and a zero MFCC matrix.\<close>

definition M_example :: ndarray where
  "M_example = full Float64 [1, 2] 9"

definition mfcc_example :: ndarray where
  "mfcc_example = full Float64 [1, 2] 0"


section \<open>Auxiliary facts\<close>

subsection \<open>Keyword lists\<close>

lemma map_of_without:
  "map_of (without ks kw) k = (if k \<in> set ks then None else map_of kw k)"
  by (induction kw) (auto simp: without_def)

lemma map_of_only:
  "map_of (only ks kw) k = (if k \<in> set ks then map_of kw k else None)"
  by (induction kw) (auto simp: only_def)

lemma has_key_without:
  "has_key (without ks kw) k = (k \<notin> set ks \<and> has_key kw k)"
  by (simp add: has_key_def map_of_without)

lemma kwarg_only:
  "k \<in> set ks \<Longrightarrow> kwarg (only ks kw) k d = kwarg kw k d"
  by (simp add: kwarg_def map_of_only)

lemma keys_only: "set (map fst (only ks kw)) \<subseteq> set ks"
  by (auto simp: only_def)

subsection \<open>Sequencing\<close>

lemma and_then_returns:
  assumes "and_then m f h = (Inr y, h')"
  obtains x h1 where "m h = (Inr x, h1)" and "f x h1 = (Inr y, h')"
  using assms by (auto simp: and_then_def split: prod.splits sum.splits)


lemma py_truediv_float: "py_float v = Inr p \<Longrightarrow> p \<noteq> 0 \<Longrightarrow> py_truediv x v = Inr (x / p)"
  by (simp add: py_truediv_def)

text \<open>An \<open>int\<close> beyond the range of a float cannot be a divisor.\<close>

lemma py_truediv_overflow: "py_truediv 1 (PInt (10 ^ 400)) = Inl OverflowError"
  by (simp add: py_truediv_def)

lemma shape0_matrix: "shape a = [n, t] \<Longrightarrow> shape0 a = Inr (int n)"
  by (simp add: shape0_def)

lemma ref_value_reference_power:
  "ref_value r a = (case reference_power r a of None \<Rightarrow> Inl TypeError | Some v \<Rightarrow> Inr v)"
  by (cases r) simp_all

subsection \<open>The range of the formats\<close>

lemma tiny_pos: "0 < tiny d"
  by (cases d) simp_all

lemma tiny_lt_one: "tiny d < 1"
  by (cases d) simp_all

lemma huge_gt: "1000 < huge d"
  by (cases d) simp_all

lemma to_float_0: "to_float d 0 = Fin 0"
  using tiny_pos [of d] by (simp add: to_float_def)

lemma to_float_in_range: "tiny d < y \<Longrightarrow> y < huge d \<Longrightarrow> to_float d y = Fin y"
  using tiny_pos [of d] by (simp add: to_float_def)

lemma to_float_moderate: "1 \<le> y \<Longrightarrow> y \<le> 1000 \<Longrightarrow> to_float d y = Fin y"
  using tiny_lt_one [of d] huge_gt [of d] by (intro to_float_in_range) linarith+

lemma nonneg_to_float: "0 \<le> y \<Longrightarrow> nonneg (to_float d y)"
  using tiny_pos [of d] by (auto simp: to_float_def)




subsection \<open>Element-wise operations and signs\<close>

lemma nonneg_np_power_elem: "nonneg v \<Longrightarrow> nonneg (np_power_elem d v e)"
  by (cases v) (auto simp: nonneg_to_float)

text \<open>The sign of the base matters: a negative entry under a square root is \<open>nan\<close>.\<close>

lemma np_power_elem_negative_base: "np_power_elem d (Fin (- 4)) (1 / 2) = NaN"
  by (simp add: is_integer_def)

text \<open>
  On a non-negative entry and for a positive power, numpy's power is the power
  function of the reals.
\<close>

lemma np_power_elem_root:
  "nonneg v \<Longrightarrow> 0 < p \<Longrightarrow> np_power_elem d v (1 / p) = root_elem d p v"
  by (cases v) (auto simp: to_float_0)

text \<open>
  Inside the range of the format \<open>root_elem\<close> is the inverse of raising to the power
  \<open>p\<close>: the entry \<open>y\<close> it gives is non-negative and \<open>y\<close> to the \<open>p\<close> is \<open>x\<close>.
\<close>

lemma root_elem_inverse:
  assumes "0 < x" "0 < p" "tiny d < x powr (1 / p)" "x powr (1 / p) < huge d"
  shows "\<exists>y. root_elem d p (Fin x) = Fin y \<and> 0 < y \<and> y powr p = x"
proof -
  have "root_elem d p (Fin x) = Fin (x powr (1 / p))"
    using assms by (simp add: to_float_in_range)
  moreover have "(x powr (1 / p)) powr p = x"
    using assms by (simp add: powr_powr)
  moreover have "0 < x powr (1 / p)"
    using assms by simp
  ultimately show ?thesis by blast
qed





subsection \<open>The store only grows\<close>

lemma grows_iff: "grows h h' \<longleftrightarrow> (\<exists>ys. h' = h @ ys)"
proof
  assume "grows h h'"
  then have "h' = h @ drop (length h) h'"
    by (metis append_take_drop_id grows_def)
  then show "\<exists>ys. h' = h @ ys" ..
next
  assume "\<exists>ys. h' = h @ ys"
  then show "grows h h'" by (auto simp: grows_def)
qed

lemma grows_refl: "grows h h"
  by (simp add: grows_def)

lemma grows_length: "grows h h' \<Longrightarrow> length h \<le> length h'"
  by (auto simp: grows_iff)

lemma grows_trans: "grows h h1 \<Longrightarrow> grows h1 h2 \<Longrightarrow> grows h h2"
  by (auto simp: grows_iff)

lemma grows_nth: "grows h h' \<Longrightarrow> a < length h \<Longrightarrow> h' ! a = h ! a"
  by (auto simp: grows_iff nth_append)

lemma grows_append: "grows h (h @ ys)"
  by (simp add: grows_def)

lemma grows_update: "grows h h' \<Longrightarrow> length h \<le> a \<Longrightarrow> grows h (h'[a := v])"
  by (simp add: grows_def)

lemma allocates_only_raise: "allocates_only h (Inl e, h)"
  by (simp add: allocates_only_def grows_refl)

lemma allocates_only_alloc: "allocates_only h (alloc a h)"
  by (simp add: allocates_only_def alloc_def grows_append)

lemma allocates_only_later:
  assumes g: "grows h h1" and a: "allocates_only h1 out"
  shows "allocates_only h out"
proof -
  from a have "grows h1 (snd out)" by (simp add: allocates_only_def)
  with g have "grows h (snd out)" by (rule grows_trans)
  moreover have "case fst out of Inl e \<Rightarrow> True | Inr x \<Rightarrow> length h \<le> x \<and> x < length (snd out)"
    using a grows_length [OF g] by (simp add: allocates_only_def split: sum.splits)
  ultimately show ?thesis by (simp add: allocates_only_def)
qed

lemma allocates_only_and_then:
  assumes m: "allocates_only h (m h)"
    and f: "\<And>x h1. m h = (Inr x, h1) \<Longrightarrow> allocates_only h1 (f x h1)"
  shows "allocates_only h (and_then m f h)"
proof (cases "m h")
  case (Pair r h1)
  show ?thesis
  proof (cases r)
    case (Inl e)
    with Pair m show ?thesis by (simp add: and_then_def allocates_only_def)
  next
    case (Inr x)
    with Pair have run: "and_then m f h = f x h1" by (simp add: and_then_def)
    from Pair m have "grows h h1" by (simp add: allocates_only_def)
    moreover from Pair Inr have "allocates_only h1 (f x h1)" by (intro f) simp
    ultimately show ?thesis unfolding run by (rule allocates_only_later)
  qed
qed

lemma allocates_only_np_power_out:
  assumes "grows h h2" and "length h \<le> x"
  shows "allocates_only h (np_power_out x p h2)"
  using assms by (simp add: np_power_out_def allocates_only_def grows_update)

lemma allocates_only_db_to_power: "allocates_only h (db_to_power S_db ref h)"
  by (simp add: db_to_power_def allocates_only_raise allocates_only_alloc split: sum.splits)

text \<open>
  In \<open>mel_to_stft\<close> the only write into an existing array is the one of \<open>np.power\<close>,
  and it hits the array that \<open>nnls\<close> has just returned.
\<close>

lemma mel_to_stft_allocates_only:
  assumes C: "collaborators_allocate_only C"
  shows "allocates_only h (mel_to_stft C M kw h)"
proof -
  have tail: "allocates_only h
      (and_then (filters_mel C sr n_fft kws)
         (\<lambda>mel_basis. and_then (nnls C mel_basis M)
           (\<lambda>inverse. case py_truediv 1 pw of Inl e \<Rightarrow> raise e | Inr p \<Rightarrow> np_power_out inverse p)) h)"
    for sr n_fft kws pw
  proof (rule allocates_only_and_then)
    show "allocates_only h (filters_mel C sr n_fft kws h)"
      using C by (simp add: collaborators_allocate_only_def)
  next
    fix b h1 assume b: "filters_mel C sr n_fft kws h = (Inr b, h1)"
    have n: "allocates_only h1 (nnls C b M h1)"
      using C by (simp add: collaborators_allocate_only_def)
    show "allocates_only h1
       (and_then (nnls C b M)
         (\<lambda>inverse. case py_truediv 1 pw of Inl e \<Rightarrow> raise e | Inr p \<Rightarrow> np_power_out inverse p) h1)"
    proof (cases "nnls C b M h1")
      case (Pair r h2)
      show ?thesis
      proof (cases r)
        case (Inl e)
        with Pair n show ?thesis by (simp add: and_then_def allocates_only_def)
      next
        case (Inr x)
        with Pair n have g2: "grows h1 h2" and fresh: "length h1 \<le> x"
          by (simp_all add: allocates_only_def)
        show ?thesis
        proof (cases "py_truediv 1 pw")
          case (Inl e)
          with Pair \<open>r = Inr x\<close> g2 show ?thesis
            by (simp add: and_then_def raise_def allocates_only_def)
        next
          case (Inr p)
          with Pair \<open>r = Inr x\<close> allocates_only_np_power_out [OF g2 fresh]
          show ?thesis by (simp add: and_then_def)
        qed
      qed
    qed
  qed
  show ?thesis
  proof (cases "shape0 (h ! M)")
    case (Inl e)
    then show ?thesis by (simp add: mel_to_stft_def Let_def allocates_only_raise)
  next
    case (Inr n)
    then show ?thesis by (simp add: mel_to_stft_def Let_def allocates_only_raise tail)
  qed
qed

lemma mel_to_audio_allocates_only:
  assumes C: "collaborators_allocate_only C"
  shows "allocates_only h (mel_to_audio C M kw h)"
proof -
  have "allocates_only h (and_then (mel_to_stft C M kws) (\<lambda>stft. griffinlim C stft gk) h)"
    for kws gk
    using C by (intro allocates_only_and_then mel_to_stft_allocates_only)
      (simp_all add: collaborators_allocate_only_def)
  then show ?thesis
    by (simp add: mel_to_audio_def Let_def allocates_only_raise)
qed

lemma mfcc_to_mel_allocates_only:
  assumes C: "collaborators_allocate_only C"
  shows "allocates_only h (mfcc_to_mel C mfcc kw h)"
proof -
  have "allocates_only h (and_then (idct C mfcc ik) (\<lambda>logmel. db_to_power logmel r) h)" for ik r
    using C by (intro allocates_only_and_then allocates_only_db_to_power)
      (simp_all add: collaborators_allocate_only_def)
  then show ?thesis
    by (simp add: mfcc_to_mel_def allocates_only_raise)
qed

lemma mfcc_to_audio_allocates_only:
  assumes C: "collaborators_allocate_only C"
  shows "allocates_only h (mfcc_to_audio C mfcc kw h)"
proof -
  have "allocates_only h
     (and_then (mfcc_to_mel C mfcc k1) (\<lambda>mel_spec. mel_to_audio C mel_spec k2) h)" for k1 k2
    using C by (intro allocates_only_and_then mfcc_to_mel_allocates_only
        mel_to_audio_allocates_only)
  then show ?thesis
    by (simp add: mfcc_to_audio_def Let_def allocates_only_raise)
qed

subsection \<open>The concrete collaborators keep the contracts\<close>

lemma shape_full: "shape (full d s c) = s"
  by (simp add: full_def)

lemma entries_full: "entries (full d s c) = replicate (prod_list s) (Fin c)"
  by (simp add: full_def)

lemma zero_mel_allocates_only: "allocates_only h (zero_mel sr n_fft kws h)"
  by (simp add: zero_mel_def allocates_only_alloc allocates_only_raise raise_def
      split: pyval.splits option.splits)

lemma flat_nnls_allocates_only: "allocates_only h (flat_nnls A B h)"
  by (simp add: flat_nnls_def allocates_only_alloc allocates_only_raise split: list.splits)

lemma silent_griffinlim_allocates_only: "allocates_only h (silent_griffinlim S kws h)"
  by (simp add: silent_griffinlim_def allocates_only_alloc)

lemma zero_idct_allocates_only: "allocates_only h (zero_idct x kws h)"
  by (simp add: zero_idct_def allocates_only_alloc allocates_only_raise
      split: list.splits pyval.splits option.splits)

lemma example_allocate_only: "collaborators_allocate_only example_collaborators"
  by (simp add: collaborators_allocate_only_def example_collaborators_def
      zero_mel_allocates_only flat_nnls_allocates_only silent_griffinlim_allocates_only
      zero_idct_allocates_only)

lemma example_mel_basis_shape: "mel_basis_shape example_collaborators"
  by (auto simp: mel_basis_shape_def example_collaborators_def zero_mel_def alloc_def raise_def
      shape_full split: pyval.splits option.splits)

lemma example_nnls_shape: "nnls_shape example_collaborators"
  by (auto simp: nnls_shape_def example_collaborators_def flat_nnls_def alloc_def shape_full)

lemma example_nnls_nonneg: "nnls_nonneg example_collaborators"
  by (auto simp: nnls_nonneg_def example_collaborators_def flat_nnls_def alloc_def entries_full
      list_all_iff split: list.splits if_splits)

lemma example_idct_shape: "idct_shape example_collaborators"
  by (auto simp: idct_shape_def example_collaborators_def zero_idct_def alloc_def shape_full)


subsection \<open>Runs of \<open>mel_to_stft\<close> that return\<close>

lemma mel_to_stft_returns_cases:
  assumes "mel_to_stft C M kw h = (Inr S, h')"
  obtains n b h1 p h2 where
    "\<not> has_key kw ''M''" "M < length h" "shape0 (h ! M) = Inr n"
    "\<not> has_key kw ''n_mels''" "\<not> has_key kw ''dtype''"
    "filters_mel C (kwarg kw ''sr'' (PInt 22050)) (kwarg kw ''n_fft'' (PInt 2048))
       ((''n_mels'', PInt n) # (''dtype'', PDType (dtype (h ! M))) #
        without [''sr'', ''n_fft'', ''power''] kw) h = (Inr b, h1)"
    "nnls C b M h1 = (Inr S, h2)"
    "py_truediv 1 (kwarg kw ''power'' (PFloat 2)) = Inr p"
    "S < length h2"
    "h' = h2[S := (h2 ! S)\<lparr>entries :=
                 map (\<lambda>x. np_power_elem (dtype (h2 ! S)) x p) (entries (h2 ! S))\<rparr>]"
proof -
  from assms have k: "\<not> has_key kw ''M''" and M: "M < length h"
    by (auto simp: mel_to_stft_def Let_def split: if_splits)
  from assms k M obtain n where n: "shape0 (h ! M) = Inr n"
    by (cases "shape0 (h ! M)") (auto simp: mel_to_stft_def Let_def)
  from assms k M n have d: "\<not> has_key kw ''n_mels''" "\<not> has_key kw ''dtype''"
    by (auto simp: mel_to_stft_def Let_def has_key_without split: if_splits)
  let ?kws = "(''n_mels'', PInt n) # (''dtype'', PDType (dtype (h ! M))) #
        without [''sr'', ''n_fft'', ''power''] kw"
  let ?pw = "kwarg kw ''power'' (PFloat 2)"
  from assms k M n d have run:
    "and_then (filters_mel C (kwarg kw ''sr'' (PInt 22050)) (kwarg kw ''n_fft'' (PInt 2048)) ?kws)
       (\<lambda>mel_basis. and_then (nnls C mel_basis M)
          (\<lambda>inverse. case py_truediv 1 ?pw of Inl e \<Rightarrow> raise e
                      | Inr p \<Rightarrow> np_power_out inverse p)) h = (Inr S, h')"
    by (simp add: mel_to_stft_def Let_def has_key_without)
  from run obtain b h1 where
    b: "filters_mel C (kwarg kw ''sr'' (PInt 22050)) (kwarg kw ''n_fft'' (PInt 2048)) ?kws h
          = (Inr b, h1)"
    and run1: "and_then (nnls C b M)
          (\<lambda>inverse. case py_truediv 1 ?pw of Inl e \<Rightarrow> raise e
                      | Inr p \<Rightarrow> np_power_out inverse p) h1 = (Inr S, h')"
    by (rule and_then_returns)
  from run1 obtain x h2 where
    x: "nnls C b M h1 = (Inr x, h2)"
    and run2: "(case py_truediv 1 ?pw of Inl e \<Rightarrow> raise e
                | Inr p \<Rightarrow> np_power_out x p) h2 = (Inr S, h')"
    by (rule and_then_returns)
  from run2 obtain p where p: "py_truediv 1 ?pw = Inr p"
    by (cases "py_truediv 1 ?pw") (auto simp: raise_def)
  from run2 p have "np_power_out x p h2 = (Inr S, h')" by simp
  then have "x = S" "S < length h2"
    "h' = h2[S := (h2 ! S)\<lparr>entries :=
                 map (\<lambda>x. np_power_elem (dtype (h2 ! S)) x p) (entries (h2 ! S))\<rparr>]"
    by (auto simp: np_power_out_def split: if_splits)
  with k M n d b x p show thesis by (intro that) auto
qed

lemma mel_to_stft_returns:
  assumes "\<not> has_key kw ''M''" "M < length h" "shape0 (h ! M) = Inr n"
    "\<not> has_key kw ''n_mels''" "\<not> has_key kw ''dtype''"
    "filters_mel C (kwarg kw ''sr'' (PInt 22050)) (kwarg kw ''n_fft'' (PInt 2048))
       ((''n_mels'', PInt n) # (''dtype'', PDType (dtype (h ! M))) #
        without [''sr'', ''n_fft'', ''power''] kw) h = (Inr b, h1)"
    "nnls C b M h1 = (Inr S, h2)"
    "py_truediv 1 (kwarg kw ''power'' (PFloat 2)) = Inr p"
    "S < length h2"
  shows "mel_to_stft C M kw h =
     (Inr S, h2[S := (h2 ! S)\<lparr>entries :=
                 map (\<lambda>x. np_power_elem (dtype (h2 ! S)) x p) (entries (h2 ! S))\<rparr>])"
  using assms
  by (simp add: mel_to_stft_def Let_def has_key_without and_then_def np_power_out_def)

text \<open>
  \<open>mel_to_stft(M, n_fft=2)\<close> on the one-band example: the filter bank goes to
  address 1, the solution to address 2, and the square root is taken there.
\<close>

lemma mel_to_stft_example:
  "mel_to_stft example_collaborators 0 [(''n_fft'', PInt 2)] [M_example] =
     (Inr 2, [M_example, full Float64 [1, 2] 0, full Float64 [2, 2] 2])"
  by (simp add: mel_to_stft_def Let_def py_truediv_def and_then_def has_key_def kwarg_def without_def
      shape0_def example_collaborators_def zero_mel_def flat_nnls_def alloc_def M_example_def
      np_power_out_def full_def powr_half_sqrt to_float_moderate)

section \<open>Properties\<close>

text \<open>
  In what follows a call is written with its first argument and its keyword
  arguments; further positional arguments are read as the keywords they bind.
\<close>

subsection \<open>A power of zero\<close>




subsection \<open>Hop length handed to the phase reconstruction\<close>

text \<open>
  C2. The claim: when the caller does not give a hop length, \<open>mel_to_audio\<close> hands
  \<open>n_fft // 4\<close> to \<open>griffinlim\<close>. The signature's default is the constant 512, and it
  is handed on as it is: for \<open>mel_to_audio(M, n_fft=1024)\<close> the collaborator gets the
  hop length 512, while \<open>1024 // 4\<close> is 256.
\<close>

theorem mel_to_audio_hop_length_1024:
  "mel_to_audio C M [(''n_fft'', PInt 1024)] h =
     and_then
       (mel_to_stft C M [(''sr'', PInt 22050), (''n_fft'', PInt 1024), (''power'', PFloat 2)])
       (\<lambda>stft. griffinlim C stft (griffinlim_kwargs [(''n_fft'', PInt 1024)])) h
   \<and> map_of (griffinlim_kwargs [(''n_fft'', PInt 1024)]) ''hop_length'' = Some (PInt 512)
   \<and> PInt 512 \<noteq> PInt (1024 div 4)"
  by (simp add: mel_to_audio_def griffinlim_kwargs_def kwarg_def without_def has_key_def)

subsection \<open>Shape of the recovered spectrogram\<close>

text \<open>
  C3. For \<open>M\<close> of shape \<open>(n_mels, T)\<close> and \<open>n_fft = F\<close> (given, or 2048 by default),
  every matrix that \<open>mel_to_stft\<close> returns has shape \<open>(F // 2 + 1, T)\<close>, provided
  \<open>filters.mel\<close> returns a basis of shape \<open>(n_mels, F // 2 + 1)\<close>, \<open>nnls\<close> returns a
  solution of shape (basis columns, target columns), and neither changes an existing
  array. A matrix is returned whenever both collaborators return and \<open>1./power\<close> is
  defined.
\<close>

theorem mel_to_stft_shape:
  assumes frame: "collaborators_allocate_only C"
    and mel: "mel_basis_shape C"
    and solver: "nnls_shape C"
    and M: "M < length h" "shape (h ! M) = [n_mels, T]"
    and F: "kwarg kw ''n_fft'' (PInt 2048) = PInt (int F)"
  shows "(\<forall>S h'. mel_to_stft C M kw h = (Inr S, h')
            \<longrightarrow> S < length h' \<and> shape (h' ! S) = [F div 2 + 1, T]) \<and>
         (\<forall>b h1 x h2 p.
            \<not> has_key kw ''M'' \<and> \<not> has_key kw ''n_mels'' \<and> \<not> has_key kw ''dtype'' \<and>
            filters_mel C (kwarg kw ''sr'' (PInt 22050)) (PInt (int F))
              ((''n_mels'', PInt (int n_mels)) # (''dtype'', PDType (dtype (h ! M))) #
               without [''sr'', ''n_fft'', ''power''] kw) h = (Inr b, h1) \<and>
            nnls C b M h1 = (Inr x, h2) \<and>
            py_truediv 1 (kwarg kw ''power'' (PFloat 2)) = Inr p
            \<longrightarrow> (\<exists>h'. mel_to_stft C M kw h = (Inr x, h')))"
proof
  show "\<forall>S h'. mel_to_stft C M kw h = (Inr S, h')
            \<longrightarrow> S < length h' \<and> shape (h' ! S) = [F div 2 + 1, T]"
  proof (intro allI impI)
    fix S h'
    assume run: "mel_to_stft C M kw h = (Inr S, h')"
    from run obtain n b h1 p h2 where
      n: "shape0 (h ! M) = Inr n"
      and b: "filters_mel C (kwarg kw ''sr'' (PInt 22050)) (kwarg kw ''n_fft'' (PInt 2048))
         ((''n_mels'', PInt n) # (''dtype'', PDType (dtype (h ! M))) #
          without [''sr'', ''n_fft'', ''power''] kw) h = (Inr b, h1)"
      and x: "nnls C b M h1 = (Inr S, h2)"
      and S: "S < length h2"
      and h': "h' = h2[S := (h2 ! S)\<lparr>entries :=
                 map (\<lambda>x. np_power_elem (dtype (h2 ! S)) x p) (entries (h2 ! S))\<rparr>]"
      by (rule mel_to_stft_returns_cases)
    from n M have n_eq: "n = int n_mels" by (simp add: shape0_matrix)
    have basis: "b < length h1 \<and> shape (h1 ! b) = [n_mels, F div 2 + 1]"
      using mel b unfolding mel_basis_shape_def F n_eq by fastforce
    have "allocates_only h (filters_mel C (kwarg kw ''sr'' (PInt 22050))
         (kwarg kw ''n_fft'' (PInt 2048))
         ((''n_mels'', PInt n) # (''dtype'', PDType (dtype (h ! M))) #
          without [''sr'', ''n_fft'', ''power''] kw) h)"
      using frame by (simp add: collaborators_allocate_only_def)
    with b have g: "grows h h1" by (simp add: allocates_only_def)
    from g M have M1: "M < length h1" "shape (h1 ! M) = [n_mels, T]"
      using grows_length [OF g] by (simp_all add: grows_nth)
    have "S < length h2 \<and> shape (h2 ! S) = [F div 2 + 1, T]"
      using solver x basis M1 unfolding nnls_shape_def by blast
    then show "S < length h' \<and> shape (h' ! S) = [F div 2 + 1, T]" by (simp add: h')
  qed
  show "\<forall>b h1 x h2 p.
            \<not> has_key kw ''M'' \<and> \<not> has_key kw ''n_mels'' \<and> \<not> has_key kw ''dtype'' \<and>
            filters_mel C (kwarg kw ''sr'' (PInt 22050)) (PInt (int F))
              ((''n_mels'', PInt (int n_mels)) # (''dtype'', PDType (dtype (h ! M))) #
               without [''sr'', ''n_fft'', ''power''] kw) h = (Inr b, h1) \<and>
            nnls C b M h1 = (Inr x, h2) \<and>
            py_truediv 1 (kwarg kw ''power'' (PFloat 2)) = Inr p
            \<longrightarrow> (\<exists>h'. mel_to_stft C M kw h = (Inr x, h'))"
  proof (intro allI impI)
    fix b h1 x h2 p
    assume a: "\<not> has_key kw ''M'' \<and> \<not> has_key kw ''n_mels'' \<and> \<not> has_key kw ''dtype'' \<and>
            filters_mel C (kwarg kw ''sr'' (PInt 22050)) (PInt (int F))
              ((''n_mels'', PInt (int n_mels)) # (''dtype'', PDType (dtype (h ! M))) #
               without [''sr'', ''n_fft'', ''power''] kw) h = (Inr b, h1) \<and>
            nnls C b M h1 = (Inr x, h2) \<and>
            py_truediv 1 (kwarg kw ''power'' (PFloat 2)) = Inr p"
    from a have k: "\<not> has_key kw ''M''" "\<not> has_key kw ''n_mels''" "\<not> has_key kw ''dtype''"
      and b: "filters_mel C (kwarg kw ''sr'' (PInt 22050)) (kwarg kw ''n_fft'' (PInt 2048))
              ((''n_mels'', PInt (int n_mels)) # (''dtype'', PDType (dtype (h ! M))) #
               without [''sr'', ''n_fft'', ''power''] kw) h = (Inr b, h1)"
      and s: "nnls C b M h1 = (Inr x, h2)"
      and p: "py_truediv 1 (kwarg kw ''power'' (PFloat 2)) = Inr p"
      unfolding F by blast+
    have "allocates_only h1 (nnls C b M h1)"
      using frame by (simp add: collaborators_allocate_only_def)
    with s have x: "x < length h2" by (simp add: allocates_only_def)
    from M have n: "shape0 (h ! M) = Inr (int n_mels)" by (simp add: shape0_matrix)
    have "mel_to_stft C M kw h =
       (Inr x, h2[x := (h2 ! x)\<lparr>entries :=
                 map (\<lambda>v. np_power_elem (dtype (h2 ! x)) v p) (entries (h2 ! x))\<rparr>])"
      by (rule mel_to_stft_returns [OF k(1) M(1) n k(2) k(3) b s p x])
    then show "\<exists>h'. mel_to_stft C M kw h = (Inr x, h')" ..
  qed
qed

text \<open>An instance: one band, two frames, \<open>n_fft = 6\<close>; the result has shape \<open>(4, 2)\<close>.\<close>

theorem mel_to_stft_shape_witness:
  "collaborators_allocate_only example_collaborators \<and>
   mel_basis_shape example_collaborators \<and> nnls_shape example_collaborators \<and>
   shape ([M_example] ! 0) = [1, 2] \<and>
   mel_to_stft example_collaborators 0 [(''n_fft'', PInt 6)] [M_example] =
     (Inr 2, [M_example, full Float64 [1, 4] 0, full Float64 [4, 2] 2]) \<and>
   shape ([M_example, full Float64 [1, 4] 0, full Float64 [4, 2] 2] ! 2) = [6 div 2 + 1, 2]"
proof -
  have run: "mel_to_stft example_collaborators 0 [(''n_fft'', PInt 6)] [M_example] =
     (Inr 2, [M_example, full Float64 [1, 4] 0, full Float64 [4, 2] 2])"
    by (simp add: mel_to_stft_def Let_def py_truediv_def and_then_def has_key_def kwarg_def without_def
        shape0_def example_collaborators_def zero_mel_def flat_nnls_def alloc_def M_example_def
        np_power_out_def full_def powr_half_sqrt to_float_moderate)
  have M: "(0::nat) < length [M_example]" "shape ([M_example] ! 0) = [1, 2]"
    by (simp_all add: M_example_def full_def)
  have F: "kwarg [(''n_fft'', PInt 6)] ''n_fft'' (PInt 2048) = PInt (int 6)"
    by (simp add: kwarg_def)
  from mel_to_stft_shape [OF example_allocate_only example_mel_basis_shape example_nnls_shape
      M F]
  have "\<forall>S h'. mel_to_stft example_collaborators 0 [(''n_fft'', PInt 6)] [M_example] = (Inr S, h')
            \<longrightarrow> S < length h' \<and> shape (h' ! S) = [6 div 2 + 1, 2]"
    by (rule conjunct1)
  with run have "shape ([M_example, full Float64 [1, 4] 0, full Float64 [4, 2] 2] ! 2)
      = [6 div 2 + 1, 2]"
    by blast
  with example_allocate_only example_mel_basis_shape example_nnls_shape M run
  show ?thesis by blast
qed

subsection \<open>DCT type 1 with normalisation\<close>

text \<open>
  C4. The claim: \<open>mfcc_to_mel\<close> with \<open>dct_type=1\<close> and \<open>norm='ortho'\<close> fails with the
  invalid-parameter error. The module makes no check of the two parameters: it hands
  them to the inverse DCT as they are. If the inverse DCT raises, that very error
  reaches the caller and the store is as the inverse DCT left it; if it returns,
  \<open>mfcc_to_mel\<close> goes on to the decibel-to-power conversion of what it returned.
\<close>

theorem mfcc_to_mel_dct1_ortho:
  assumes keys: "set (map fst kw) \<subseteq> set mfcc_to_mel_params"
    and t: "kwarg kw ''dct_type'' (PInt 2) = PInt 1"
    and n: "kwarg kw ''norm'' (PStr ''ortho'') = PStr ''ortho''"
  shows "mfcc_to_mel C mfcc kw h =
           and_then
             (idct C mfcc [(''axis'', PInt 0), (''type'', PInt 1), (''norm'', PStr ''ortho''),
                           (''n'', kwarg kw ''n_mels'' (PInt 128))])
             (\<lambda>logmel. db_to_power logmel (kwarg kw ''ref'' (PFloat 1))) h
         \<and> (\<forall>e h1.
               idct C mfcc [(''axis'', PInt 0), (''type'', PInt 1), (''norm'', PStr ''ortho''),
                            (''n'', kwarg kw ''n_mels'' (PInt 128))] h = (Inl e, h1)
               \<longrightarrow> mfcc_to_mel C mfcc kw h = (Inl e, h1))"
  using keys by (simp add: mfcc_to_mel_def idct_kwargs_def t n and_then_def)

text \<open>
  An instance: with an inverse DCT that rejects the combination, \<open>mfcc_to_mel\<close> fails
  with the inverse DCT's error.
\<close>

theorem mfcc_to_mel_dct1_ortho_witness:
  "set (map fst [(''dct_type'', PInt 1), (''norm'', PStr ''ortho'')]) \<subseteq> set mfcc_to_mel_params \<and>
   idct strict_collaborators 0
     [(''axis'', PInt 0), (''type'', PInt 1), (''norm'', PStr ''ortho''), (''n'', PInt 128)]
     [mfcc_example] = (Inl ParameterError, [mfcc_example]) \<and>
   mfcc_to_mel strict_collaborators 0 [(''dct_type'', PInt 1), (''norm'', PStr ''ortho'')]
     [mfcc_example] = (Inl ParameterError, [mfcc_example])"
proof -
  let ?kw = "[(''dct_type'', PInt 1), (''norm'', PStr ''ortho'')]"
  have keys: "set (map fst ?kw) \<subseteq> set mfcc_to_mel_params"
    by (simp add: mfcc_to_mel_params_def)
  have t: "kwarg ?kw ''dct_type'' (PInt 2) = PInt 1"
    and n: "kwarg ?kw ''norm'' (PStr ''ortho'') = PStr ''ortho''"
    and m: "kwarg ?kw ''n_mels'' (PInt 128) = PInt 128"
    by (simp_all add: kwarg_def)
  have rej: "idct strict_collaborators 0
     [(''axis'', PInt 0), (''type'', PInt 1), (''norm'', PStr ''ortho''), (''n'', PInt 128)]
     [mfcc_example] = (Inl ParameterError, [mfcc_example])"
    by (simp add: strict_collaborators_def strict_idct_def)
  from mfcc_to_mel_dct1_ortho [OF keys t n, of strict_collaborators 0 "[mfcc_example]"]
  have "\<forall>e h1. idct strict_collaborators 0
     [(''axis'', PInt 0), (''type'', PInt 1), (''norm'', PStr ''ortho''), (''n'', PInt 128)]
     [mfcc_example] = (Inl e, h1)
     \<longrightarrow> mfcc_to_mel strict_collaborators 0 ?kw [mfcc_example] = (Inl e, h1)"
    unfolding m by (rule conjunct2)
  with rej have "mfcc_to_mel strict_collaborators 0 ?kw [mfcc_example] =
      (Inl ParameterError, [mfcc_example])"
    by blast
  with rej keys show ?thesis by blast
qed

text \<open>
  The claim fails with an inverse DCT that accepts the combination:
  \<open>mfcc_to_mel(mfcc, n_mels=2, dct_type=1, norm='ortho')\<close> on the zero MFCC matrix
  returns the all-ones power spectrum.
\<close>

theorem mfcc_to_mel_dct1_ortho_counterexample:
  "mfcc_to_mel example_collaborators 0
     [(''n_mels'', PInt 2), (''dct_type'', PInt 1), (''norm'', PStr ''ortho'')] [mfcc_example] =
     (Inr 2, [mfcc_example, full Float64 [2, 2] 0, full Float64 [2, 2] 1])"
  by (simp add: mfcc_to_mel_def mfcc_to_mel_params_def idct_kwargs_def kwarg_def and_then_def
      example_collaborators_def zero_idct_def alloc_def db_to_power_def mfcc_example_def full_def
      to_float_moderate)

subsection \<open>The full composition\<close>

text \<open>
  C5. \<open>mfcc_to_audio(mfcc, **kw)\<close> is \<open>mel_to_audio(mfcc_to_mel(mfcc, **kw1), **kw2)\<close>,
  where \<open>kw1\<close> holds the keywords \<open>n_mels\<close>, \<open>dct_type\<close>, \<open>norm\<close> and \<open>ref\<close> of \<open>kw\<close> and
  \<open>kw2\<close> the others: the same outcome and the same store, for every MFCC matrix, every
  store and all collaborators. (\<open>mfcc\<close> itself is not among the keywords.)
\<close>

theorem mfcc_to_audio_composition:
  assumes "\<not> has_key kw ''mfcc''"
  shows "mfcc_to_audio C mfcc kw h =
           and_then (mfcc_to_mel C mfcc (only mfcc_to_mel_params kw))
             (\<lambda>mel_spec. mel_to_audio C mel_spec (without mfcc_to_mel_params kw)) h"
proof -
  have keys: "set (map fst (only mfcc_to_mel_params kw)) \<subseteq> set mfcc_to_mel_params"
    by (rule keys_only)
  have args: "idct_kwargs (only mfcc_to_mel_params kw) = idct_kwargs kw"
    "kwarg (only mfcc_to_mel_params kw) ''ref'' (PFloat 1) = kwarg kw ''ref'' (PFloat 1)"
    by (simp_all add: idct_kwargs_def kwarg_only mfcc_to_mel_params_def)
  have split: "mfcc_to_mel C mfcc (only mfcc_to_mel_params kw) =
      and_then (idct C mfcc (idct_kwargs kw))
        (\<lambda>logmel. db_to_power logmel (kwarg kw ''ref'' (PFloat 1)))"
    using keys by (auto simp: mfcc_to_mel_def args)
  have whole: "mfcc_to_mel C mfcc
      [(''n_mels'', kwarg kw ''n_mels'' (PInt 128)), (''dct_type'', kwarg kw ''dct_type'' (PInt 2)),
       (''norm'', kwarg kw ''norm'' (PStr ''ortho'')), (''ref'', kwarg kw ''ref'' (PFloat 1))] =
      and_then (idct C mfcc (idct_kwargs kw))
        (\<lambda>logmel. db_to_power logmel (kwarg kw ''ref'' (PFloat 1)))"
    by (auto simp: mfcc_to_mel_def mfcc_to_mel_params_def idct_kwargs_def kwarg_def)
  show ?thesis
    using assms by (simp add: mfcc_to_audio_def Let_def whole split)
qed

text \<open>An instance: \<open>mfcc_to_audio(mfcc, n_fft=2, n_mels=1)\<close> on the zero MFCC matrix.\<close>

theorem mfcc_to_audio_composition_witness:
  "\<not> has_key [(''n_fft'', PInt 2), (''n_mels'', PInt 1)] ''mfcc'' \<and>
   only mfcc_to_mel_params [(''n_fft'', PInt 2), (''n_mels'', PInt 1)] = [(''n_mels'', PInt 1)] \<and>
   without mfcc_to_mel_params [(''n_fft'', PInt 2), (''n_mels'', PInt 1)] = [(''n_fft'', PInt 2)] \<and>
   mfcc_to_audio example_collaborators 0 [(''n_fft'', PInt 2), (''n_mels'', PInt 1)] [mfcc_example] =
     and_then (mfcc_to_mel example_collaborators 0 [(''n_mels'', PInt 1)])
       (\<lambda>mel_spec. mel_to_audio example_collaborators mel_spec [(''n_fft'', PInt 2)])
       [mfcc_example] \<and>
   mfcc_to_audio example_collaborators 0 [(''n_fft'', PInt 2), (''n_mels'', PInt 1)] [mfcc_example] =
     (Inr 5, [mfcc_example, full Float64 [1, 2] 0, full Float64 [1, 2] 1,
              full Float64 [1, 2] 0, full Float64 [2, 2] 2, full Float32 [0] 0])"
proof -
  let ?kw = "[(''n_fft'', PInt 2), (''n_mels'', PInt 1)]"
  have k: "\<not> has_key ?kw ''mfcc''" by (simp add: has_key_def)
  have o: "only mfcc_to_mel_params ?kw = [(''n_mels'', PInt 1)]"
    and w: "without mfcc_to_mel_params ?kw = [(''n_fft'', PInt 2)]"
    by (simp_all add: only_def without_def mfcc_to_mel_params_def)
  have run: "and_then (mfcc_to_mel example_collaborators 0 [(''n_mels'', PInt 1)])
       (\<lambda>mel_spec. mel_to_audio example_collaborators mel_spec [(''n_fft'', PInt 2)])
       [mfcc_example] =
     (Inr 5, [mfcc_example, full Float64 [1, 2] 0, full Float64 [1, 2] 1,
              full Float64 [1, 2] 0, full Float64 [2, 2] 2, full Float32 [0] 0])"
    by (simp add: mfcc_to_mel_def mfcc_to_mel_params_def idct_kwargs_def kwarg_def and_then_def
      example_collaborators_def zero_idct_def alloc_def db_to_power_def mfcc_example_def full_def
      mel_to_audio_def mel_to_stft_def Let_def py_truediv_def has_key_def without_def shape0_def
      zero_mel_def
      flat_nnls_def np_power_out_def powr_half_sqrt to_float_moderate silent_griffinlim_def
      griffinlim_kwargs_def)
  from mfcc_to_audio_composition [OF k, of example_collaborators 0 "[mfcc_example]"] k o w run
  show ?thesis by simp
qed

subsection \<open>Mel-to-magnitude inversion is the prescribed composition\<close>

text \<open>
  C6. For a call with admissible keywords, a power \<open>p > 0\<close> (a Python \<open>float\<close> or
  \<open>int\<close>) and a solver that returns no negative entry, \<open>mel_to_stft\<close> is the composition
  that the specification words: the mel basis is constructed from the sample rate,
  the FFT size, the band count \<open>M.shape[0]\<close>, the numeric type of \<open>M\<close> and the
  remaining options; the solver is called on that basis and \<open>M\<close>; its solution is
  raised to \<open>1/p\<close> in place and returned. The exponentiation of the specification is
  the power function of the reals (\<open>root_elem\<close>), that of the code is numpy's
  (\<open>np_power_elem\<close>). Whenever the call returns, the basis it has constructed has
  \<open>M.shape[0]\<close> rows, \<open>n_fft // 2 + 1\<close> columns and the numeric type of \<open>M\<close> (given
  the constructor's contracts), and the array returned is the solver's, with every
  entry replaced by its \<open>1/p\<close>-th power.
\<close>

theorem mel_to_stft_refines_spec:
  assumes k: "\<not> has_key kw ''M''" "\<not> has_key kw ''n_mels''" "\<not> has_key kw ''dtype''"
    and M: "M < length h" "shape (h ! M) \<noteq> []"
    and p: "py_float (kwarg kw ''power'' (PFloat 2)) = Inr p" "0 < p"
    and solver: "nnls_nonneg C"
  shows "mel_to_stft C M kw h =
           mel_to_stft_spec C M (kwarg kw ''sr'' (PInt 22050)) (kwarg kw ''n_fft'' (PInt 2048)) p
             (without [''sr'', ''n_fft'', ''power''] kw) h
         \<and> (\<forall>S h'. mel_to_stft C M kw h = (Inr S, h') \<longrightarrow>
              (\<exists>b h1 h2.
                 filters_mel C (kwarg kw ''sr'' (PInt 22050)) (kwarg kw ''n_fft'' (PInt 2048))
                   ((''n_mels'', PInt (int (hd (shape (h ! M))))) #
                    (''dtype'', PDType (dtype (h ! M))) #
                    without [''sr'', ''n_fft'', ''power''] kw) h = (Inr b, h1) \<and>
                 (mel_basis_shape C \<longrightarrow>
                    (\<forall>F. kwarg kw ''n_fft'' (PInt 2048) = PInt (int F)
                       \<longrightarrow> shape (h1 ! b) = [hd (shape (h ! M)), F div 2 + 1])) \<and>
                 (mel_basis_dtype C \<longrightarrow> dtype (h1 ! b) = dtype (h ! M)) \<and>
                 nnls C b M h1 = (Inr S, h2) \<and> S < length h2 \<and>
                 h' = h2[S := (h2 ! S)\<lparr>entries :=
                        map (root_elem (dtype (h2 ! S)) p) (entries (h2 ! S))\<rparr>]))"
proof
  let ?sr = "kwarg kw ''sr'' (PInt 22050)"
  let ?n_fft = "kwarg kw ''n_fft'' (PInt 2048)"
  let ?opts = "without [''sr'', ''n_fft'', ''power''] kw"
  let ?kws = "(''n_mels'', PInt (int (hd (shape (h ! M))))) #
              (''dtype'', PDType (dtype (h ! M))) # ?opts"
  from M obtain n ns where s: "shape (h ! M) = n # ns" by (cases "shape (h ! M)") auto
  then have n: "shape0 (h ! M) = Inr (int (hd (shape (h ! M))))"
    by (simp add: shape0_def)
  from p have q: "py_truediv 1 (kwarg kw ''power'' (PFloat 2)) = Inr (1 / p)"
    by (intro py_truediv_float) simp_all
  have root: "map (\<lambda>v. np_power_elem d v (1 / p)) vs = map (root_elem d p) vs"
    if "list_all nonneg vs" for d vs
    using that p(2) by (simp add: list_all_iff np_power_elem_root)
  have step: "and_then (nnls C b M) (\<lambda>inverse. np_power_out inverse (1 / p)) =
              and_then (nnls C b M) (inverse_exponent p)" for b
  proof
    fix h1
    show "and_then (nnls C b M) (\<lambda>inverse. np_power_out inverse (1 / p)) h1 =
              and_then (nnls C b M) (inverse_exponent p) h1"
  proof (cases "nnls C b M h1")
    case (Pair r h2)
    show ?thesis
    proof (cases r)
      case (Inl e)
      with Pair show ?thesis by (simp add: and_then_def)
    next
      case (Inr x)
      with Pair solver have "list_all nonneg (entries (h2 ! x))"
        unfolding nnls_nonneg_def by blast
      with Pair Inr show ?thesis
        by (simp add: and_then_def np_power_out_def inverse_exponent_def root)
    qed
  qed
  qed
  have code: "mel_to_stft C M kw h =
      and_then (filters_mel C ?sr ?n_fft ?kws)
        (\<lambda>mel_basis. and_then (nnls C mel_basis M)
           (\<lambda>inverse. np_power_out inverse (1 / p))) h"
    using k M by (simp add: mel_to_stft_def Let_def n q has_key_without)
  show "mel_to_stft C M kw h = mel_to_stft_spec C M ?sr ?n_fft p ?opts h"
    unfolding code mel_to_stft_spec_def mel_basis_constructor_def
    by (simp add: step)
  show "\<forall>S h'. mel_to_stft C M kw h = (Inr S, h') \<longrightarrow>
              (\<exists>b h1 h2.
                 filters_mel C ?sr ?n_fft ?kws h = (Inr b, h1) \<and>
                 (mel_basis_shape C \<longrightarrow>
                    (\<forall>F. ?n_fft = PInt (int F)
                       \<longrightarrow> shape (h1 ! b) = [hd (shape (h ! M)), F div 2 + 1])) \<and>
                 (mel_basis_dtype C \<longrightarrow> dtype (h1 ! b) = dtype (h ! M)) \<and>
                 nnls C b M h1 = (Inr S, h2) \<and> S < length h2 \<and>
                 h' = h2[S := (h2 ! S)\<lparr>entries :=
                        map (root_elem (dtype (h2 ! S)) p) (entries (h2 ! S))\<rparr>])"
  proof (intro allI impI)
    fix S h'
    assume run: "mel_to_stft C M kw h = (Inr S, h')"
    from run obtain n' b h1 e h2 where
      n': "shape0 (h ! M) = Inr n'"
      and b: "filters_mel C ?sr ?n_fft
         ((''n_mels'', PInt n') # (''dtype'', PDType (dtype (h ! M))) # ?opts) h = (Inr b, h1)"
      and x: "nnls C b M h1 = (Inr S, h2)"
      and e: "py_truediv 1 (kwarg kw ''power'' (PFloat 2)) = Inr e"
      and S: "S < length h2"
      and h': "h' = h2[S := (h2 ! S)\<lparr>entries :=
                 map (\<lambda>x. np_power_elem (dtype (h2 ! S)) x e) (entries (h2 ! S))\<rparr>]"
      by (rule mel_to_stft_returns_cases)
    from n n' have n_eq: "n' = int (hd (shape (h ! M)))" by simp
    from q e have e_eq: "e = 1 / p" by simp
    from solver x have "list_all nonneg (entries (h2 ! S))"
      unfolding nnls_nonneg_def by blast
    then have h'': "h' = h2[S := (h2 ! S)\<lparr>entries :=
                 map (root_elem (dtype (h2 ! S)) p) (entries (h2 ! S))\<rparr>]"
      unfolding h' e_eq by (simp add: root)
    have shape: "mel_basis_shape C \<longrightarrow>
          (\<forall>F. ?n_fft = PInt (int F) \<longrightarrow> shape (h1 ! b) = [hd (shape (h ! M)), F div 2 + 1])"
      using b unfolding mel_basis_shape_def n_eq by fastforce
    have type: "mel_basis_dtype C \<longrightarrow> dtype (h1 ! b) = dtype (h ! M)"
      using b unfolding mel_basis_dtype_def n_eq by fastforce
    from b x S h'' shape type
    show "\<exists>b h1 h2.
                 filters_mel C ?sr ?n_fft ?kws h = (Inr b, h1) \<and>
                 (mel_basis_shape C \<longrightarrow>
                    (\<forall>F. ?n_fft = PInt (int F)
                       \<longrightarrow> shape (h1 ! b) = [hd (shape (h ! M)), F div 2 + 1])) \<and>
                 (mel_basis_dtype C \<longrightarrow> dtype (h1 ! b) = dtype (h ! M)) \<and>
                 nnls C b M h1 = (Inr S, h2) \<and> S < length h2 \<and>
                 h' = h2[S := (h2 ! S)\<lparr>entries :=
                        map (root_elem (dtype (h2 ! S)) p) (entries (h2 ! S))\<rparr>]"
      unfolding n_eq by blast
  qed
qed

text \<open>
  An instance with an integer power, \<open>mel_to_stft(M, n_fft=2, power=2)\<close>, on the
  one-band example: the solution's entries 4 become 2.
\<close>

theorem mel_to_stft_refines_spec_witness:
  "\<not> has_key [(''n_fft'', PInt 2), (''power'', PInt 2)] ''M'' \<and>
   shape ([M_example] ! 0) \<noteq> [] \<and>
   py_float (kwarg [(''n_fft'', PInt 2), (''power'', PInt 2)] ''power'' (PFloat 2)) = Inr 2 \<and>
   nnls_nonneg example_collaborators \<and>
   mel_to_stft example_collaborators 0 [(''n_fft'', PInt 2), (''power'', PInt 2)] [M_example] =
     mel_to_stft_spec example_collaborators 0 (PInt 22050) (PInt 2) 2 [] [M_example] \<and>
   mel_to_stft_spec example_collaborators 0 (PInt 22050) (PInt 2) 2 [] [M_example] =
     (Inr 2, [M_example, full Float64 [1, 2] 0, full Float64 [2, 2] 2])"
proof -
  let ?kw = "[(''n_fft'', PInt 2), (''power'', PInt 2)]"
  have k: "\<not> has_key ?kw ''M''" "\<not> has_key ?kw ''n_mels''" "\<not> has_key ?kw ''dtype''"
    by (simp_all add: has_key_def)
  have M: "(0::nat) < length [M_example]" "shape ([M_example] ! 0) \<noteq> []"
    by (simp_all add: M_example_def full_def)
  have p: "py_float (kwarg ?kw ''power'' (PFloat 2)) = Inr 2" "(0::real) < 2"
    by (simp_all add: kwarg_def)
  have a: "kwarg ?kw ''sr'' (PInt 22050) = PInt 22050" "kwarg ?kw ''n_fft'' (PInt 2048) = PInt 2"
    "without [''sr'', ''n_fft'', ''power''] ?kw = []"
    by (simp_all add: kwarg_def without_def)
  have run: "mel_to_stft_spec example_collaborators 0 (PInt 22050) (PInt 2) 2 [] [M_example] =
     (Inr 2, [M_example, full Float64 [1, 2] 0, full Float64 [2, 2] 2])"
    by (simp add: mel_to_stft_spec_def mel_basis_constructor_def inverse_exponent_def and_then_def
        example_collaborators_def zero_mel_def flat_nnls_def alloc_def M_example_def
        full_def powr_half_sqrt to_float_moderate)
  from mel_to_stft_refines_spec [OF k M p example_nnls_nonneg]
  have "mel_to_stft example_collaborators 0 ?kw [M_example] =
     mel_to_stft_spec example_collaborators 0 (PInt 22050) (PInt 2) 2 [] [M_example]"
    unfolding a by (rule conjunct1)
  with k M p example_nnls_nonneg run show ?thesis by blast
qed

subsection \<open>Cepstral inversion is the two-step definition\<close>

text \<open>
  C7. \<open>mfcc_to_mel\<close> is the two-step definition: the inverse DCT of the selected type
  and normalisation along axis 0 with \<open>n_mels\<close> output coefficients, then
  \<open>ref * 10^(logmel/10)\<close> for every element, where \<open>ref\<close> is the given number or the
  value of the given callable on the log-power array. When the inverse DCT keeps its
  shape contract, the result has shape \<open>(n_mels, frames)\<close> with the frames of the
  input. The decibel-to-power conversion is the one modelled from the specification.
\<close>

theorem mfcc_to_mel_refines_spec:
  assumes keys: "set (map fst kw) \<subseteq> set mfcc_to_mel_params"
  shows "mfcc_to_mel C mfcc kw h =
           mfcc_to_mel_spec C mfcc (kwarg kw ''n_mels'' (PInt 128)) (kwarg kw ''dct_type'' (PInt 2))
             (kwarg kw ''norm'' (PStr ''ortho'')) (kwarg kw ''ref'' (PFloat 1)) h
         \<and> (\<forall>c t n m h'.
               idct_shape C \<and> mfcc < length h \<and> shape (h ! mfcc) = [c, t] \<and>
               kwarg kw ''n_mels'' (PInt 128) = PInt (int n) \<and>
               mfcc_to_mel C mfcc kw h = (Inr m, h')
               \<longrightarrow> m < length h' \<and> shape (h' ! m) = [n, t])"
proof
  show eq: "mfcc_to_mel C mfcc kw h =
           mfcc_to_mel_spec C mfcc (kwarg kw ''n_mels'' (PInt 128)) (kwarg kw ''dct_type'' (PInt 2))
             (kwarg kw ''norm'' (PStr ''ortho'')) (kwarg kw ''ref'' (PFloat 1)) h"
    using keys
    by (auto simp: mfcc_to_mel_def mfcc_to_mel_spec_def inverse_dct_def idct_kwargs_def
        and_then_def db_to_power_def alloc_def ref_value_reference_power
        split: prod.splits sum.splits option.splits)
  show "\<forall>c t n m h'.
               idct_shape C \<and> mfcc < length h \<and> shape (h ! mfcc) = [c, t] \<and>
               kwarg kw ''n_mels'' (PInt 128) = PInt (int n) \<and>
               mfcc_to_mel C mfcc kw h = (Inr m, h')
               \<longrightarrow> m < length h' \<and> shape (h' ! m) = [n, t]"
  proof (intro allI impI, elim conjE)
    fix c t n m h'
    assume dct: "idct_shape C" and x: "mfcc < length h" "shape (h ! mfcc) = [c, t]"
      and n: "kwarg kw ''n_mels'' (PInt 128) = PInt (int n)"
      and run: "mfcc_to_mel C mfcc kw h = (Inr m, h')"
    from run keys have "and_then (idct C mfcc (idct_kwargs kw))
             (\<lambda>logmel. db_to_power logmel (kwarg kw ''ref'' (PFloat 1))) h = (Inr m, h')"
      by (simp add: mfcc_to_mel_def split: if_splits)
    then obtain l h1 where l: "idct C mfcc (idct_kwargs kw) h = (Inr l, h1)"
      and d: "db_to_power l (kwarg kw ''ref'' (PFloat 1)) h1 = (Inr m, h')"
      by (rule and_then_returns)
    have "map_of (idct_kwargs kw) ''axis'' = Some (PInt 0)"
      "map_of (idct_kwargs kw) ''n'' = Some (PInt (int n))"
      by (simp_all add: idct_kwargs_def n)
    with dct l x have ls: "l < length h1 \<and> shape (h1 ! l) = [n, t]"
      unfolding idct_shape_def by blast
    from d ls show "m < length h' \<and> shape (h' ! m) = [n, t]"
      by (auto simp: db_to_power_def alloc_def split: if_splits sum.splits)
  qed
qed

text \<open>An instance: \<open>mfcc_to_mel(mfcc, n_mels=3)\<close> on the zero MFCC matrix.\<close>

theorem mfcc_to_mel_refines_spec_witness:
  "set (map fst [(''n_mels'', PInt 3)]) \<subseteq> set mfcc_to_mel_params \<and>
   idct_shape example_collaborators \<and> shape ([mfcc_example] ! 0) = [1, 2] \<and>
   mfcc_to_mel example_collaborators 0 [(''n_mels'', PInt 3)] [mfcc_example] =
     mfcc_to_mel_spec example_collaborators 0 (PInt 3) (PInt 2) (PStr ''ortho'') (PFloat 1)
       [mfcc_example] \<and>
   mfcc_to_mel example_collaborators 0 [(''n_mels'', PInt 3)] [mfcc_example] =
     (Inr 2, [mfcc_example, full Float64 [3, 2] 0, full Float64 [3, 2] 1]) \<and>
   shape ([mfcc_example, full Float64 [3, 2] 0, full Float64 [3, 2] 1] ! 2) = [3, 2]"
proof -
  let ?kw = "[(''n_mels'', PInt 3)]"
  have keys: "set (map fst ?kw) \<subseteq> set mfcc_to_mel_params"
    by (simp add: mfcc_to_mel_params_def)
  have a: "kwarg ?kw ''n_mels'' (PInt 128) = PInt 3" "kwarg ?kw ''dct_type'' (PInt 2) = PInt 2"
    "kwarg ?kw ''norm'' (PStr ''ortho'') = PStr ''ortho''" "kwarg ?kw ''ref'' (PFloat 1) = PFloat 1"
    by (simp_all add: kwarg_def)
  have run: "mfcc_to_mel example_collaborators 0 ?kw [mfcc_example] =
     (Inr 2, [mfcc_example, full Float64 [3, 2] 0, full Float64 [3, 2] 1])"
    by (simp add: mfcc_to_mel_def mfcc_to_mel_params_def idct_kwargs_def kwarg_def and_then_def
      example_collaborators_def zero_idct_def alloc_def db_to_power_def mfcc_example_def full_def
      to_float_moderate)
  have s: "shape ([mfcc_example] ! 0) = [1, 2]"
    by (simp add: mfcc_example_def full_def)
  from mfcc_to_mel_refines_spec [OF keys, of example_collaborators 0 "[mfcc_example]"]
  have "mfcc_to_mel example_collaborators 0 ?kw [mfcc_example] =
     mfcc_to_mel_spec example_collaborators 0 (PInt 3) (PInt 2) (PStr ''ortho'') (PFloat 1)
       [mfcc_example]"
    unfolding a by (rule conjunct1)
  with keys example_idct_shape s run show ?thesis by (simp add: full_def)
qed

subsection \<open>Non-negative output\<close>

text \<open>
  C8. Given that \<open>nnls\<close> never returns a negative entry, every entry of a matrix that
  \<open>mel_to_stft\<close> returns is greater than or equal to 0: for every \<open>M\<close> and for every
  \<open>power\<close> with which the call returns, in particular for every \<open>power > 0\<close>. (Without
  the premise the output may hold \<open>nan\<close>, see \<open>np_power_elem_negative_base\<close>.)
\<close>

theorem mel_to_stft_nonneg:
  assumes solver: "nnls_nonneg C"
    and run: "mel_to_stft C M kw h = (Inr S, h')"
  shows "S < length h' \<and> list_all nonneg (entries (h' ! S))"
proof -
  from run obtain b h1 p h2 where
    x: "nnls C b M h1 = (Inr S, h2)"
    and S: "S < length h2"
    and h': "h' = h2[S := (h2 ! S)\<lparr>entries :=
                 map (\<lambda>x. np_power_elem (dtype (h2 ! S)) x p) (entries (h2 ! S))\<rparr>]"
    by (rule mel_to_stft_returns_cases)
  from solver x have "list_all nonneg (entries (h2 ! S))"
    unfolding nnls_nonneg_def by blast
  then have "list_all nonneg (map (\<lambda>x. np_power_elem (dtype (h2 ! S)) x p) (entries (h2 ! S)))"
    by (simp add: list_all_iff nonneg_np_power_elem)
  with S show ?thesis by (simp add: h')
qed

text \<open>An instance: the solution with entries 4 and \<open>power=2.0\<close> give entries 2.\<close>

theorem mel_to_stft_nonneg_witness:
  "nnls_nonneg example_collaborators \<and>
   mel_to_stft example_collaborators 0 [(''n_fft'', PInt 2), (''power'', PFloat 2)] [M_example] =
     (Inr 2, [M_example, full Float64 [1, 2] 0, full Float64 [2, 2] 2]) \<and>
   list_all nonneg (entries ([M_example, full Float64 [1, 2] 0, full Float64 [2, 2] 2] ! 2))"
proof -
  have run: "mel_to_stft example_collaborators 0 [(''n_fft'', PInt 2), (''power'', PFloat 2)]
      [M_example] = (Inr 2, [M_example, full Float64 [1, 2] 0, full Float64 [2, 2] 2])"
    by (simp add: mel_to_stft_def Let_def py_truediv_def and_then_def has_key_def kwarg_def without_def
        shape0_def example_collaborators_def zero_mel_def flat_nnls_def alloc_def M_example_def
        np_power_out_def full_def powr_half_sqrt to_float_moderate)
  from mel_to_stft_nonneg [OF example_nnls_nonneg run] example_nnls_nonneg run
  show ?thesis by simp
qed

subsection \<open>The caller's arrays are left unchanged\<close>

text \<open>
  C9. Given collaborators that leave existing arrays unchanged and return new ones,
  each of the four functions does the same, whether it returns or raises: every
  array that was in the store before the call, the inputs among them, is the same
  after it, and the array returned is a new one. The in-place exponentiation of
  \<open>mel_to_stft\<close> writes into the array that \<open>nnls\<close> has just created. (A callable given
  as \<open>ref\<close> is a function of the array it is applied to and writes nothing.)
\<close>

theorem inputs_unchanged:
  assumes C: "collaborators_allocate_only C"
  shows "allocates_only h (mel_to_stft C M kw h) \<and>
         allocates_only h (mel_to_audio C M kw h) \<and>
         allocates_only h (mfcc_to_mel C mfcc kw h) \<and>
         allocates_only h (mfcc_to_audio C mfcc kw h) \<and>
         (\<forall>a. a < length h \<longrightarrow>
            snd (mel_to_stft C M kw h) ! a = h ! a \<and>
            snd (mel_to_audio C M kw h) ! a = h ! a \<and>
            snd (mfcc_to_mel C mfcc kw h) ! a = h ! a \<and>
            snd (mfcc_to_audio C mfcc kw h) ! a = h ! a)"
proof -
  note four = mel_to_stft_allocates_only [OF C, of h M kw]
    mel_to_audio_allocates_only [OF C, of h M kw]
    mfcc_to_mel_allocates_only [OF C, of h mfcc kw]
    mfcc_to_audio_allocates_only [OF C, of h mfcc kw]
  have "snd out ! a = h ! a" if "allocates_only h out" "a < length h" for out a
    using that by (simp add: allocates_only_def grows_nth)
  with four show ?thesis by blast
qed

text \<open>
  An instance: after each of the four calls the input is still at address 0, while
  \<open>mel_to_stft\<close> has taken the square root at address 2.
\<close>

theorem inputs_unchanged_witness:
  "collaborators_allocate_only example_collaborators \<and>
   mel_to_stft example_collaborators 0 [(''n_fft'', PInt 2)] [M_example] =
     (Inr 2, [M_example, full Float64 [1, 2] 0, full Float64 [2, 2] 2]) \<and>
   snd (mel_to_stft example_collaborators 0 [(''n_fft'', PInt 2)] [M_example]) ! 0 = M_example \<and>
   snd (mel_to_audio example_collaborators 0 [(''n_fft'', PInt 2)] [M_example]) ! 0 = M_example \<and>
   snd (mfcc_to_mel example_collaborators 0 [(''n_mels'', PInt 1)] [mfcc_example]) ! 0
     = mfcc_example \<and>
   snd (mfcc_to_audio example_collaborators 0 [(''n_mels'', PInt 1), (''n_fft'', PInt 2)]
     [mfcc_example]) ! 0 = mfcc_example"
proof -
  from inputs_unchanged [OF example_allocate_only, of "[M_example]" 0 "[(''n_fft'', PInt 2)]" 0]
    inputs_unchanged [OF example_allocate_only, of "[mfcc_example]" 0 "[(''n_mels'', PInt 1)]" 0]
    inputs_unchanged [OF example_allocate_only, of "[mfcc_example]" 0
      "[(''n_mels'', PInt 1), (''n_fft'', PInt 2)]" 0]
    example_allocate_only mel_to_stft_example
  show ?thesis by simp
qed

subsection \<open>Sign of the output of the cepstral inversion\<close>





end
